theory Spec2Isabelle
  imports Main "HOL-Library.Sublist" "HOL-Library.Word"
begin

section \<open>Errors\<close>

text \<open>
  Go error values as data. \<open>PathError op path errno\<close> is what the \<open>os\<close> package returns
  for a failed system call, \<open>ErrNew msg\<close> is \<open>errors.New(msg)\<close>, \<open>ErrWrap msg e\<close> is
  \<open>errors.Wrap(e, msg)\<close> for a non-nil \<open>e\<close>, \<open>SkipDir\<close> is \<open>filepath.SkipDir\<close>, and
  \<open>Canceled\<close> is \<open>context.Canceled\<close>, the value \<open>ctx.Err()\<close> returns for a cancelled
  context. A nil error is \<open>None\<close> of \<open>error option\<close>.
\<close>

datatype errno = ENOENT | EEXIST | ENOTDIR | EISDIR | ENOTEMPTY | EINVAL | EBUSY

datatype error =
    PathError string string errno
  | ErrNew string
  | ErrWrap string error
  | SkipDir
  | Canceled

text \<open>\<open>errors.Cause\<close>: strips the wrappers added by \<open>errors.Wrap\<close>.\<close>

fun Cause :: "error \<Rightarrow> error" where
  "Cause (ErrWrap msg e) = Cause e"
| "Cause e = e"

text \<open>\<open>os.IsNotExist\<close>: true for a system-call error whose errno is ENOENT.\<close>

fun os_IsNotExist :: "error \<Rightarrow> bool" where
  "os_IsNotExist (PathError opn p e) = (e = ENOENT)"
| "os_IsNotExist _ = False"

section \<open>Handles\<close>

text \<open>
  \<open>restic.FileType\<close> is a string type in Go with six named constants; \<open>OtherType s\<close>
  stands for every other string a caller can put into a handle.
\<close>

datatype FileType =
    DataFile | KeyFile | LockFile | SnapshotFile | IndexFile | ConfigFile
  | OtherType string

record Handle =
  Type :: FileType
  Name :: string

text \<open>
  Modelled from the spec: \<open>restic.Handle.Valid\<close> is not among the source files. The spec
  says a handle is (FileType, Name) with FileType one of Config, Data, Index, Snapshot,
  Key, Lock, and that a handle is valid when its name is non-empty, except for Config.
\<close>

definition Valid :: "Handle \<Rightarrow> error option" where
  "Valid h =
     (case Type h of
        OtherType s \<Rightarrow> Some (ErrNew ''invalid Type'')
      | ConfigFile \<Rightarrow> None
      | _ \<Rightarrow> if Name h = [] then Some (ErrNew ''invalid Name'') else None)"

section \<open>The pcloud layout (layout_pcloud.go)\<close>

record PcloudLayout =
  URL :: string
  Path :: string
  Join :: "string list \<Rightarrow> string"

text \<open>
  \<open>pcloudLayoutPaths\<close> is the Go map \<open>defaultLayoutPaths\<close>, which is declared outside the
  source files at hand; it is a parameter \<open>tbl\<close> of every function that reads it. Indexing
  a Go map at an absent key gives the empty string.
\<close>

type_synonym layout_paths = "(FileType \<times> string) list"

definition paths_at :: "layout_paths \<Rightarrow> FileType \<Rightarrow> string" where
  "paths_at tbl t = (case map_of tbl t of None \<Rightarrow> [] | Some p \<Rightarrow> p)"

definition Dirname :: "layout_paths \<Rightarrow> PcloudLayout \<Rightarrow> Handle \<Rightarrow> string" where
  "Dirname tbl l h =
     (if Type h = ConfigFile then URL l @ Join l [Path l, ''/'']
      else URL l @ Join l [Path l, ''/'', paths_at tbl (Type h)] @ ''/'')"

definition Filename :: "layout_paths \<Rightarrow> PcloudLayout \<Rightarrow> Handle \<Rightarrow> string" where
  "Filename tbl l h =
     (let name = (if Type h = ConfigFile then ''config'' else Name h)
      in URL l @ Join l [Path l, ''/'', paths_at tbl (Type h), name])"

definition Paths :: "layout_paths \<Rightarrow> PcloudLayout \<Rightarrow> string list" where
  "Paths tbl l = map (\<lambda>p. URL l @ Join l [Path l, p]) (map snd tbl)"

definition Basedir :: "layout_paths \<Rightarrow> PcloudLayout \<Rightarrow> FileType \<Rightarrow> string \<times> bool" where
  "Basedir tbl l t = (URL l @ Join l [Path l, paths_at tbl t], False)"

section \<open>Configuration parsing (config.go)\<close>

text \<open>
  \<open>strings.SplitN(s, sep, n)\<close> for a one-byte separator and \<open>n \<ge> 0\<close>: at most \<open>n\<close>
  pieces, the last one the unsplit remainder.
\<close>

fun SplitN :: "string \<Rightarrow> char \<Rightarrow> nat \<Rightarrow> string list" where
  "SplitN s c 0 = []"
| "SplitN s c (Suc 0) = [s]"
| "SplitN s c (Suc (Suc n)) =
     (if c \<in> set s
      then takeWhile (\<lambda>x. x \<noteq> c) s # SplitN (tl (dropWhile (\<lambda>x. x \<noteq> c) s)) c (Suc n)
      else [s])"

text \<open>The first variant's \<open>Config\<close>; the URL is kept as the string it is parsed from.\<close>

record Config =
  cfg_URL :: string
  cfg_Path :: string
  cfg_Layout :: string
  UserName :: string
  Password :: string
  AuthToken :: string
  Connections :: nat

definition NewConfig :: Config where
  "NewConfig =
     \<lparr> cfg_URL = ''https://api.pcloud.com'', cfg_Path = [], cfg_Layout = [],
       UserName = [], Password = [], AuthToken = [], Connections = 20 \<rparr>"

definition ParseConfig :: "string \<Rightarrow> error + Config" where
  "ParseConfig s =
     (if \<not> prefix ''pcloud:'' s
      then Inl (ErrNew ''invalid format, prefix \"pcloud\" not found'')
      else
        let s' = drop 7 s;
            data = SplitN s' (CHR '':'') 3
        in if length data < 3
           then Inl (ErrNew ''pcloud: invalid format: needs Username:Password:Path'')
           else Inr (NewConfig \<lparr> UserName := data ! 0, Password := data ! 1,
                                  cfg_Path := data ! 2 \<rparr>))"

text \<open>The second variant in the same file: a \<open>Config\<close> of two fields.\<close>

record Config2 =
  cfg2_Path :: string
  cfg2_Layout :: string

definition ParseConfig2 :: "string \<Rightarrow> error + Config2" where
  "ParseConfig2 cfg =
     (if \<not> prefix ''pcloud:'' cfg
      then Inl (ErrNew ''invalid format, prefix \"pcloud\" not found'')
      else Inr \<lparr> cfg2_Path = drop 6 cfg, cfg2_Layout = [] \<rparr>)"


section \<open>Paths (Go's \<open>path\<close> and \<open>path/filepath\<close> on a slash-separated system)\<close>

text \<open>Splitting at a separator byte: \<open>n\<close> separators give \<open>n + 1\<close> pieces.\<close>

fun splitc :: "char \<Rightarrow> string \<Rightarrow> string list" where
  "splitc c [] = [[]]"
| "splitc c (x # xs) =
     (if x = c then [] # splitc c xs
      else (case splitc c xs of w # ws \<Rightarrow> (x # w) # ws | [] \<Rightarrow> [[x]]))"

fun join_with :: "string \<Rightarrow> string list \<Rightarrow> string" where
  "join_with sep [] = []"
| "join_with sep [x] = x"
| "join_with sep (x # y # ys) = x @ sep @ join_with sep (y # ys)"

text \<open>
  The lexical rules of \<open>Clean\<close>: empty and \<open>.\<close> elements vanish, a \<open>..\<close> removes the
  element before it, and a \<open>..\<close> with nothing before it is dropped in a rooted path and
  kept otherwise.
\<close>

definition lex_step :: "bool \<Rightarrow> string list \<Rightarrow> string \<Rightarrow> string list" where
  "lex_step rooted st c =
     (if c = [] \<or> c = ''.'' then st
      else if c = ''..'' then
        (if st \<noteq> [] \<and> last st \<noteq> ''..'' then butlast st
         else if rooted then st else st @ [''..''])
      else st @ [c])"

definition lex_norm :: "bool \<Rightarrow> string list \<Rightarrow> string list" where
  "lex_norm rooted cs = foldl (lex_step rooted) [] cs"

definition Clean :: "string \<Rightarrow> string" where
  "Clean p =
     (if p = [] then ''.''
      else
        let rooted = (hd p = CHR ''/'');
            out = (if rooted then ''/'' else []) @
                  join_with ''/'' (lex_norm rooted (splitc (CHR ''/'') p))
        in if out = [] then ''.'' else out)"

text \<open>\<open>path.Join\<close>: leading empty elements are skipped, the rest joined and cleaned.\<close>

definition path_Join :: "string list \<Rightarrow> string" where
  "path_Join elems =
     (case dropWhile (\<lambda>e. e = []) elems of
        [] \<Rightarrow> []
      | es \<Rightarrow> Clean (join_with ''/'' es))"

text \<open>\<open>filepath.Dir\<close>: everything up to the last separator, cleaned.\<close>

definition filepath_Dir :: "string \<Rightarrow> string" where
  "filepath_Dir p = Clean (rev (dropWhile (\<lambda>x. x \<noteq> CHR ''/'') (rev p)))"

text \<open>\<open>filepath.Base\<close>: the last element, trailing separators removed first.\<close>

definition filepath_Base :: "string \<Rightarrow> string" where
  "filepath_Base p =
     (if p = [] then ''.''
      else
        let p1 = rev (dropWhile (\<lambda>x. x = CHR ''/'') (rev p));
            p2 = rev (takeWhile (\<lambda>x. x \<noteq> CHR ''/'') (rev p1))
        in if p2 = [] then ''/'' else p2)"

section \<open>The file system\<close>

text \<open>
  The storage the backend works on, through the \<open>fs\<close> and \<open>os\<close> packages: a tree of
  directories, regular files (with their bytes) and other nodes (devices, pipes,
  sockets). A directory lists its entries in the order \<open>Walk\<close> reads them. Every path is
  resolved from the root, element by element, after the lexical rules above; symbolic
  links, permission bits and failing disks are not part of the model, so \<open>Lstat\<close> and
  \<open>Stat\<close> agree, \<open>Chmod\<close> changes nothing, and \<open>Write\<close>, \<open>Sync\<close> and \<open>Close\<close> succeed.
\<close>

type_synonym bytes = "8 word list"

datatype node = File bytes | Dir "(string \<times> node) list" | Special

type_synonym filesys = node

fun lookup :: "node \<Rightarrow> string list \<Rightarrow> errno + node"
  and lookup_in :: "(string \<times> node) list \<Rightarrow> string \<Rightarrow> string list \<Rightarrow> errno + node" where
  "lookup n [] = Inr n"
| "lookup (Dir es) (c # cs) = lookup_in es c cs"
| "lookup (File d) (c # cs) = Inl ENOTDIR"
| "lookup Special (c # cs) = Inl ENOTDIR"
| "lookup_in [] c cs = Inl ENOENT"
| "lookup_in ((k, n) # es) c cs = (if k = c then lookup n cs else lookup_in es c cs)"

definition components :: "string \<Rightarrow> string list" where
  "components p = lex_norm True (splitc (CHR ''/'') p)"

definition resolve :: "filesys \<Rightarrow> string \<Rightarrow> errno + node" where
  "resolve fs p = (if p = [] then Inl ENOENT else lookup fs (components p))"

datatype kind = Regular | Directory | Irregular

record os_FileInfo =
  fi_Name :: string
  fi_Size :: int
  fi_Kind :: kind

text \<open>The size of a directory or a special node is system dependent; 0 stands for it.\<close>

fun info_of :: "string \<Rightarrow> node \<Rightarrow> os_FileInfo" where
  "info_of p (File d) = \<lparr> fi_Name = filepath_Base p, fi_Size = int (length d), fi_Kind = Regular \<rparr>"
| "info_of p (Dir es) = \<lparr> fi_Name = filepath_Base p, fi_Size = 0, fi_Kind = Directory \<rparr>"
| "info_of p Special = \<lparr> fi_Name = filepath_Base p, fi_Size = 0, fi_Kind = Irregular \<rparr>"

definition IsDir :: "os_FileInfo \<Rightarrow> bool" where
  "IsDir fi = (fi_Kind fi = Directory)"

definition fs_Stat :: "filesys \<Rightarrow> string \<Rightarrow> error + os_FileInfo" where
  "fs_Stat fs p =
     (case resolve fs p of
        Inl e \<Rightarrow> Inl (PathError ''stat'' p e)
      | Inr n \<Rightarrow> Inr (info_of p n))"

definition fs_Lstat :: "filesys \<Rightarrow> string \<Rightarrow> error + os_FileInfo" where
  "fs_Lstat fs p =
     (case resolve fs p of
        Inl e \<Rightarrow> Inl (PathError ''lstat'' p e)
      | Inr n \<Rightarrow> Inr (info_of p n))"

definition fs_Chmod :: "filesys \<Rightarrow> string \<Rightarrow> error option" where
  "fs_Chmod fs p =
     (case resolve fs p of
        Inl e \<Rightarrow> Some (PathError ''chmod'' p e)
      | Inr n \<Rightarrow> None)"


subsection \<open>Creating, writing and removing\<close>

text \<open>
  \<open>open(2)\<close> with \<open>O_CREATE|O_EXCL|O_WRONLY\<close>: fails with EEXIST when the path resolves,
  with ENOENT or ENOTDIR when its directory does not, and otherwise adds an empty
  regular file to the directory.
\<close>

fun create :: "node \<Rightarrow> string list \<Rightarrow> errno + node"
  and create_in :: "(string \<times> node) list \<Rightarrow> string \<Rightarrow> string list \<Rightarrow> errno + (string \<times> node) list" where
  "create n [] = Inl EEXIST"
| "create (Dir es) (c # cs) =
     (case create_in es c cs of Inl e \<Rightarrow> Inl e | Inr es' \<Rightarrow> Inr (Dir es'))"
| "create (File d) (c # cs) = Inl ENOTDIR"
| "create Special (c # cs) = Inl ENOTDIR"
| "create_in [] c cs = (if cs = [] then Inr [(c, File [])] else Inl ENOENT)"
| "create_in ((k, n) # es) c cs =
     (if k = c
      then (case create n cs of Inl e \<Rightarrow> Inl e | Inr n' \<Rightarrow> Inr ((k, n') # es))
      else (case create_in es c cs of Inl e \<Rightarrow> Inl e | Inr es' \<Rightarrow> Inr ((k, n) # es')))"

text \<open>Writing \<open>data\<close> at offset 0 of the regular file at a path.\<close>

fun write_at :: "node \<Rightarrow> string list \<Rightarrow> bytes \<Rightarrow> node"
  and write_in :: "(string \<times> node) list \<Rightarrow> string \<Rightarrow> string list \<Rightarrow> bytes \<Rightarrow> (string \<times> node) list" where
  "write_at (File d) [] data = File (data @ drop (length data) d)"
| "write_at (Dir es) [] data = Dir es"
| "write_at Special [] data = Special"
| "write_at (Dir es) (c # cs) data = Dir (write_in es c cs data)"
| "write_at (File d) (c # cs) data = File d"
| "write_at Special (c # cs) data = Special"
| "write_in [] c cs data = []"
| "write_in ((k, n) # es) c cs data =
     (if k = c then (k, write_at n cs data) # es else (k, n) # write_in es c cs data)"

text \<open>
  \<open>MkdirAll\<close>: walks down the existing directories and creates the missing ones below
  them; it fails with ENOTDIR when an existing element of the path is not a directory.
\<close>

fun mk_chain :: "string list \<Rightarrow> node" where
  "mk_chain [] = Dir []"
| "mk_chain (c # cs) = Dir [(c, mk_chain cs)]"

fun mkdirs :: "node \<Rightarrow> string list \<Rightarrow> errno + node"
  and mkdirs_in :: "(string \<times> node) list \<Rightarrow> string \<Rightarrow> string list \<Rightarrow> errno + (string \<times> node) list" where
  "mkdirs (Dir es) [] = Inr (Dir es)"
| "mkdirs (Dir es) (c # cs) =
     (case mkdirs_in es c cs of Inl e \<Rightarrow> Inl e | Inr es' \<Rightarrow> Inr (Dir es'))"
| "mkdirs (File d) cs = Inl ENOTDIR"
| "mkdirs Special cs = Inl ENOTDIR"
| "mkdirs_in [] c cs = Inr [(c, mk_chain cs)]"
| "mkdirs_in ((k, n) # es) c cs =
     (if k = c
      then (case mkdirs n cs of Inl e \<Rightarrow> Inl e | Inr n' \<Rightarrow> Inr ((k, n') # es))
      else (case mkdirs_in es c cs of Inl e \<Rightarrow> Inl e | Inr es' \<Rightarrow> Inr ((k, n) # es')))"

text \<open>\<open>os.Remove\<close>: removes a file or an empty directory.\<close>

fun remove :: "node \<Rightarrow> string list \<Rightarrow> errno + node"
  and remove_in :: "(string \<times> node) list \<Rightarrow> string \<Rightarrow> string list \<Rightarrow> errno + (string \<times> node) list" where
  "remove n [] = Inl EBUSY"
| "remove (Dir es) (c # cs) =
     (case remove_in es c cs of Inl e \<Rightarrow> Inl e | Inr es' \<Rightarrow> Inr (Dir es'))"
| "remove (File d) (c # cs) = Inl ENOTDIR"
| "remove Special (c # cs) = Inl ENOTDIR"
| "remove_in [] c cs = Inl ENOENT"
| "remove_in ((k, n) # es) c cs =
     (if k = c
      then (if cs = []
            then (case n of Dir (x # xs) \<Rightarrow> Inl ENOTEMPTY | _ \<Rightarrow> Inr es)
            else (case remove n cs of Inl e \<Rightarrow> Inl e | Inr n' \<Rightarrow> Inr ((k, n') # es)))
      else (case remove_in es c cs of Inl e \<Rightarrow> Inl e | Inr es' \<Rightarrow> Inr ((k, n) # es')))"

text \<open>
  The calls of the \<open>fs\<close> and \<open>os\<close> packages that change the tree. Each returns the
  error (if any) and the tree afterwards. The file opened by \<open>OpenFile\<close> is referred to
  by its path in the calls that follow it.
\<close>

definition fs_OpenFile_excl :: "filesys \<Rightarrow> string \<Rightarrow> error option \<times> filesys" where
  "fs_OpenFile_excl fs p =
     (if p = [] then (Some (PathError ''open'' p ENOENT), fs)
      else case create fs (components p) of
             Inl e \<Rightarrow> (Some (PathError ''open'' p e), fs)
           | Inr fs' \<Rightarrow> (None, fs'))"

definition file_Write :: "filesys \<Rightarrow> string \<Rightarrow> bytes \<Rightarrow> filesys" where
  "file_Write fs p data = write_at fs (components p) data"

definition os_MkdirAll :: "filesys \<Rightarrow> string \<Rightarrow> error option \<times> filesys" where
  "os_MkdirAll fs p =
     (if p = [] then (Some (PathError ''mkdir'' p ENOENT), fs)
      else case mkdirs fs (components p) of
             Inl e \<Rightarrow> (Some (PathError ''mkdir'' p e), fs)
           | Inr fs' \<Rightarrow> (None, fs'))"

definition fs_Remove :: "filesys \<Rightarrow> string \<Rightarrow> error option \<times> filesys" where
  "fs_Remove fs p =
     (if p = [] then (Some (PathError ''remove'' p ENOENT), fs)
      else case remove fs (components p) of
             Inl e \<Rightarrow> (Some (PathError ''remove'' p e), fs)
           | Inr fs' \<Rightarrow> (None, fs'))"

subsection \<open>Reading\<close>

text \<open>
  An open file is the node it was opened on and a read position. A \<open>ReadCloser\<close> is
  either the file itself or the file under \<open>backend.LimitReadCloser\<close>, which (by its name
  and Go's \<open>io.LimitReader\<close>) passes on at most \<open>n\<close> bytes. \<open>read_all\<close> is what reading the
  reader to its end yields.
\<close>

record os_File =
  f_node :: node
  f_pos :: nat

datatype ReadCloser = FileReader os_File | LimitReadCloser os_File int

definition fs_Open :: "filesys \<Rightarrow> string \<Rightarrow> error + os_File" where
  "fs_Open fs p =
     (case resolve fs p of
        Inl e \<Rightarrow> Inl (PathError ''open'' p e)
      | Inr n \<Rightarrow> Inr \<lparr> f_node = n, f_pos = 0 \<rparr>)"

text \<open>\<open>f.Seek(offset, 0)\<close> for \<open>offset > 0\<close>: any position is accepted, also past the end.\<close>

definition file_Seek :: "os_File \<Rightarrow> int \<Rightarrow> error + os_File" where
  "file_Seek f offset = Inr (f \<lparr> f_pos := nat offset \<rparr>)"

fun file_read_all :: "os_File \<Rightarrow> error + bytes" where
  "file_read_all f =
     (case f_node f of
        File d \<Rightarrow> Inr (drop (f_pos f) d)
      | Dir es \<Rightarrow> Inl (PathError ''read'' [] EISDIR)
      | Special \<Rightarrow> Inl (PathError ''read'' [] EINVAL))"

fun read_all :: "ReadCloser \<Rightarrow> error + bytes" where
  "read_all (FileReader f) = file_read_all f"
| "read_all (LimitReadCloser f n) =
     (case file_read_all f of Inl e \<Rightarrow> Inl e | Inr d \<Rightarrow> Inr (take (nat n) d))"

text \<open>
  The reader handed to \<open>Save\<close>: the bytes it yields and the error it ends with (\<open>None\<close>
  for a plain end of file). \<open>io.Copy\<close> writes the bytes and returns that error.
\<close>

datatype Reader = Reader bytes "error option"


subsection \<open>Walking a directory tree\<close>

text \<open>
  \<open>filepath.Walk\<close>: the callback is called on the root and then on every entry below it,
  a directory before its entries. An error from the callback ends the walk and is the
  result, except \<open>SkipDir\<close>: returned for a directory it skips that directory, returned
  for another entry it skips the rest of the directory that holds the entry, and at the
  top it becomes nil. The callback gets the path and either the entry's \<open>FileInfo\<close> or
  the error of the failed \<open>Lstat\<close>; it threads a state of its own.
\<close>

type_synonym 'st WalkFunc = "string \<Rightarrow> error + os_FileInfo \<Rightarrow> 'st \<Rightarrow> error option \<times> 'st"

fun is_dir :: "node \<Rightarrow> bool" where
  "is_dir (Dir es) = True"
| "is_dir n = False"

fun walk :: "string \<Rightarrow> node \<Rightarrow> 'st WalkFunc \<Rightarrow> 'st \<Rightarrow> error option \<times> 'st"
  and walk_entries :: "string \<Rightarrow> (string \<times> node) list \<Rightarrow> 'st WalkFunc \<Rightarrow> 'st \<Rightarrow> error option \<times> 'st" where
  "walk path (Dir es) walkFn st =
     (case walkFn path (Inr (info_of path (Dir es))) st of
        (Some err1, st') \<Rightarrow> (Some err1, st')
      | (None, st') \<Rightarrow> walk_entries path es walkFn st')"
| "walk path (File d) walkFn st = walkFn path (Inr (info_of path (File d))) st"
| "walk path Special walkFn st = walkFn path (Inr (info_of path Special)) st"
| "walk_entries path [] walkFn st = (None, st)"
| "walk_entries path ((name, n) # es) walkFn st =
     (case walk (path_Join [path, name]) n walkFn st of
        (Some err, st') \<Rightarrow>
          if \<not> is_dir n \<or> err \<noteq> SkipDir then (Some err, st')
          else walk_entries path es walkFn st'
      | (None, st') \<Rightarrow> walk_entries path es walkFn st')"

definition fs_Walk :: "filesys \<Rightarrow> string \<Rightarrow> 'st WalkFunc \<Rightarrow> 'st \<Rightarrow> error option \<times> 'st" where
  "fs_Walk fs root walkFn st =
     (case (case resolve fs root of
              Inl e \<Rightarrow> walkFn root (Inl (PathError ''lstat'' root e)) st
            | Inr n \<Rightarrow> walk root n walkFn st) of
        (err, st') \<Rightarrow> (if err = Some SkipDir then None else err, st'))"

section \<open>The backend (pcloud.go)\<close>

text \<open>
  \<open>Pcloud\<close> embeds the \<open>backend.Layout\<close> interface; of its methods the backend calls
  \<open>Filename\<close>, \<open>Paths\<close> and \<open>Basedir\<close>. \<open>PcloudLayout\<close> gives one implementation.
\<close>

record Layout =
  L_Filename :: "Handle \<Rightarrow> string"
  L_Paths :: "string list"
  L_Basedir :: "FileType \<Rightarrow> string \<times> bool"

definition PcloudLayout_Layout :: "layout_paths \<Rightarrow> PcloudLayout \<Rightarrow> Layout" where
  "PcloudLayout_Layout tbl l =
     \<lparr> L_Filename = Filename tbl l, L_Paths = Paths tbl l, L_Basedir = Basedir tbl l \<rparr>"

record Pcloud =
  be_Config :: Config
  be_Layout :: Layout

text \<open>
  A context is the time from which on it is cancelled (\<open>None\<close>: never). Time is counted
  in steps of the call that holds the context; a context cancelled before the call is
  \<open>Some 0\<close>. \<open>ctx_Err ctx now\<close> is \<open>ctx.Err()\<close> read at time \<open>now\<close>.
\<close>

type_synonym Context = "nat option"

definition ctx_Err :: "Context \<Rightarrow> nat \<Rightarrow> error option" where
  "ctx_Err ctx now =
     (case ctx of None \<Rightarrow> None | Some k \<Rightarrow> if k \<le> now then Some Canceled else None)"

record FileInfo =
  Size :: int
  fiName :: string

definition zero_FileInfo :: FileInfo where
  "zero_FileInfo = \<lparr> Size = 0, fiName = [] \<rparr>"

definition defaultLayout :: string where
  "defaultLayout = ''default''"

text \<open>
  \<open>backend.ParseLayout\<close> is not among the source files: it is the parameter
  \<open>parseLayout\<close>, given the file system it may probe, the layout name, the default
  layout name and the repository path. The \<open>http.RoundTripper\<close> argument is unused.
\<close>

type_synonym ParseLayout = "filesys \<Rightarrow> string \<Rightarrow> string \<Rightarrow> string \<Rightarrow> error + Layout"

definition Open :: "ParseLayout \<Rightarrow> Config \<Rightarrow> filesys \<Rightarrow> error + Pcloud" where
  "Open parseLayout cfg fs =
     (case parseLayout fs (cfg_Layout cfg) defaultLayout (cfg_Path cfg) of
        Inl err \<Rightarrow> Inl err
      | Inr l \<Rightarrow> Inr \<lparr> be_Config = cfg, be_Layout = l \<rparr>)"

fun mkdir_paths :: "filesys \<Rightarrow> string list \<Rightarrow> error option \<times> filesys" where
  "mkdir_paths fs [] = (None, fs)"
| "mkdir_paths fs (d # ds) =
     (case os_MkdirAll fs d of
        (Some err, fs') \<Rightarrow> (Some (ErrWrap ''MkdirAll'' err), fs')
      | (None, fs') \<Rightarrow> mkdir_paths fs' ds)"

definition Create :: "ParseLayout \<Rightarrow> Config \<Rightarrow> filesys \<Rightarrow> (error + Pcloud) \<times> filesys" where
  "Create parseLayout cfg fs =
     (case parseLayout fs (cfg_Layout cfg) defaultLayout (cfg_Path cfg) of
        Inl err \<Rightarrow> (Inl err, fs)
      | Inr l \<Rightarrow>
          let be = \<lparr> be_Config = cfg, be_Layout = l \<rparr> in
          (case fs_Lstat fs (L_Filename (be_Layout be) \<lparr> Type = ConfigFile, Name = [] \<rparr>) of
             Inr fi \<Rightarrow> (Inl (ErrNew ''config file already exists''), fs)
           | Inl err \<Rightarrow>
               (case mkdir_paths fs (L_Paths (be_Layout be)) of
                  (Some err', fs') \<Rightarrow> (Inl err', fs')
                | (None, fs') \<Rightarrow> (Inr be, fs'))))"

definition Location :: "Pcloud \<Rightarrow> string" where
  "Location b = cfg_Path (be_Config b)"

definition IsNotExist :: "error option \<Rightarrow> bool" where
  "IsNotExist err = (case err of None \<Rightarrow> False | Some e \<Rightarrow> os_IsNotExist (Cause e))"

text \<open>
  Modelled from the spec: \<open>setNewFileMode\<close> is not among the source files and the spec
  does not describe it; by its name and arguments it sets the permission bits of the
  new file, which is \<open>fs.Chmod\<close>.
\<close>

definition setNewFileMode :: "filesys \<Rightarrow> string \<Rightarrow> error option" where
  "setNewFileMode fs filename = fs_Chmod fs filename"

definition Save :: "Context \<Rightarrow> Pcloud \<Rightarrow> Handle \<Rightarrow> Reader \<Rightarrow> filesys \<Rightarrow> error option \<times> filesys" where
  "Save ctx b h rd fs =
     (case Valid h of
        Some err \<Rightarrow> (Some err, fs)
      | None \<Rightarrow>
          let filename = L_Filename (be_Layout b) h;
              (err, fs1) = fs_OpenFile_excl fs filename;
              (err, fs2) =
                (if IsNotExist err
                 then (case os_MkdirAll fs1 (filepath_Dir filename) of
                         (Some mkdirErr, fs') \<Rightarrow> (err, fs')
                       | (None, fs') \<Rightarrow> fs_OpenFile_excl fs' filename)
                 else (err, fs1))
          in case err of
               Some e \<Rightarrow> (Some (ErrWrap ''OpenFile'' e), fs2)
             | None \<Rightarrow>
                 (case rd of
                    Reader data rerr \<Rightarrow>
                      let fs3 = file_Write fs2 filename data in
                      (case rerr of
                         Some e \<Rightarrow> (Some (ErrWrap ''Write'' e), fs3)
                       | None \<Rightarrow> (setNewFileMode fs3 filename, fs3))))"

definition Load :: "Context \<Rightarrow> Pcloud \<Rightarrow> Handle \<Rightarrow> int \<Rightarrow> int \<Rightarrow> filesys \<Rightarrow> error + ReadCloser" where
  "Load ctx b h length' offset fs =
     (case Valid h of
        Some err \<Rightarrow> Inl err
      | None \<Rightarrow>
          if offset < 0 then Inl (ErrNew ''offset is negative'')
          else case fs_Open fs (L_Filename (be_Layout b) h) of
                 Inl err \<Rightarrow> Inl err
               | Inr f \<Rightarrow>
                   (case (if offset > 0 then file_Seek f offset else Inr f) of
                      Inl err \<Rightarrow> Inl err
                    | Inr f' \<Rightarrow>
                        if length' > 0 then Inr (LimitReadCloser f' length')
                        else Inr (FileReader f')))"

definition Stat :: "Context \<Rightarrow> Pcloud \<Rightarrow> Handle \<Rightarrow> filesys \<Rightarrow> FileInfo \<times> error option" where
  "Stat ctx b h fs =
     (case Valid h of
        Some err \<Rightarrow> (zero_FileInfo, Some err)
      | None \<Rightarrow>
          (case fs_Stat fs (L_Filename (be_Layout b) h) of
             Inl err \<Rightarrow> (zero_FileInfo, Some (ErrWrap ''Stat'' err))
           | Inr fi \<Rightarrow> (\<lparr> Size = fi_Size fi, fiName = Name h \<rparr>, None)))"

definition Test :: "Context \<Rightarrow> Pcloud \<Rightarrow> Handle \<Rightarrow> filesys \<Rightarrow> bool \<times> error option" where
  "Test ctx b h fs =
     (case fs_Stat fs (L_Filename (be_Layout b) h) of
        Inl err \<Rightarrow>
          if os_IsNotExist (Cause err) then (False, None)
          else (False, Some (ErrWrap ''Stat'' err))
      | Inr fi \<Rightarrow> (True, None))"

definition Remove :: "Context \<Rightarrow> Pcloud \<Rightarrow> Handle \<Rightarrow> filesys \<Rightarrow> error option \<times> filesys" where
  "Remove ctx b h fs =
     (let fn = L_Filename (be_Layout b) h in
      case fs_Chmod fs fn of
        Some err \<Rightarrow> (Some (ErrWrap ''Chmod'' err), fs)
      | None \<Rightarrow> fs_Remove fs fn)"

definition isFile :: "os_FileInfo \<Rightarrow> bool" where
  "isFile fi = (fi_Kind fi = Regular)"

text \<open>
  The visitor \<open>fn\<close> of \<open>List\<close> is a Go closure: it is given the time of the call and a
  state of its own, and returns its error and its new state. The callback that \<open>List\<close>
  hands to \<open>Walk\<close> runs on the pair of the time and the visitor's state: a call of the
  callback takes one step, and a call of \<open>fn\<close> inside it one more.
\<close>

type_synonym 's Visitor = "nat \<Rightarrow> 's \<Rightarrow> FileInfo \<Rightarrow> error option \<times> 's"

definition List_walkFn ::
  "Context \<Rightarrow> string \<Rightarrow> bool \<Rightarrow> 's Visitor \<Rightarrow> (nat \<times> 's) WalkFunc" where
  "List_walkFn ctx basedir subdirs fn path arg st =
     (case st of (now, s) \<Rightarrow>
        (case arg of
           Inl err \<Rightarrow> (Some err, (Suc now, s))
         | Inr fi \<Rightarrow>
             if path = basedir then (None, (Suc now, s))
             else if \<not> isFile fi then (None, (Suc now, s))
             else if IsDir fi \<and> \<not> subdirs then (Some SkipDir, (Suc now, s))
             else
               let rfi = \<lparr> Size = fi_Size fi, fiName = filepath_Base path \<rparr> in
               if ctx_Err ctx now \<noteq> None then (ctx_Err ctx now, (Suc now, s))
               else case fn now s rfi of
                      (Some err, s') \<Rightarrow> (Some err, (Suc (Suc now), s'))
                    | (None, s') \<Rightarrow> (ctx_Err ctx (Suc now), (Suc (Suc now), s'))))"

text \<open>\<open>List\<close> returns its error, the time at which it returns and the visitor's state.\<close>

definition List ::
  "Context \<Rightarrow> Pcloud \<Rightarrow> FileType \<Rightarrow> 's Visitor \<Rightarrow> filesys \<Rightarrow> 's \<Rightarrow> error option \<times> nat \<times> 's" where
  "List ctx b t fn fs s =
     (case L_Basedir (be_Layout b) t of
        (basedir, subdirs) \<Rightarrow> fs_Walk fs basedir (List_walkFn ctx basedir subdirs fn) (0, s))"

definition Close :: "Pcloud \<Rightarrow> error option" where
  "Close b = None"


section \<open>A concrete repository\<close>

text \<open>
  Values for running the model: a layout table with the five directories of a
  repository, a layout at the path \<open>repo\<close> that joins with \<open>path.Join\<close>, and the backend
  on it.
\<close>

definition ex_paths :: layout_paths where
  "ex_paths = [(DataFile, ''data''), (SnapshotFile, ''snapshots''), (IndexFile, ''index''),
               (LockFile, ''locks''), (KeyFile, ''keys'')]"

definition ex_layout :: PcloudLayout where
  "ex_layout = \<lparr> URL = [], Path = ''repo'', Join = path_Join \<rparr>"

definition ex_backend :: Pcloud where
  "ex_backend = \<lparr> be_Config = NewConfig \<lparr> cfg_Path := ''repo'' \<rparr>,
                  be_Layout = PcloudLayout_Layout ex_paths ex_layout \<rparr>"

definition ex_handle :: Handle where
  "ex_handle = \<lparr> Type = DataFile, Name = ''ab'' \<rparr>"

text \<open>A repository with an empty data directory, and one holding the object \<open>ab\<close>.\<close>

definition ex_fs_empty :: filesys where
  "ex_fs_empty = Dir [(''repo'', Dir [(''data'', Dir [])])]"

definition ex_fs_one :: filesys where
  "ex_fs_one = Dir [(''repo'', Dir [(''data'', Dir [(''ab'', File [1, 2, 3])])])]"

text \<open>A tree in which \<open>repo/data\<close> is a regular file.\<close>

definition ex_fs_blocked :: filesys where
  "ex_fs_blocked = Dir [(''repo'', Dir [(''data'', File [])])]"

text \<open>A repository that already has its config object.\<close>

definition ex_fs_config :: filesys where
  "ex_fs_config = Dir [(''repo'', Dir [(''config'', File [7])])]"

definition ex_parseLayout :: ParseLayout where
  "ex_parseLayout fs layout deflt path = Inr (PcloudLayout_Layout ex_paths ex_layout)"

section \<open>Observing a walk\<close>

text \<open>
  \<open>logged fn\<close> is the visitor \<open>fn\<close> that also records each of its calls: the time of the
  call, the \<open>FileInfo\<close> it was given and the error it returned.
\<close>

type_synonym visit = "nat \<times> FileInfo \<times> error option"

definition logged :: "'s Visitor \<Rightarrow> ('s \<times> visit list) Visitor" where
  "logged fn now st fi =
     (case st of (s, log) \<Rightarrow>
        (case fn now s fi of (r, s') \<Rightarrow> (r, (s', log @ [(now, fi, r)]))))"

text \<open>
  A property \<open>G\<close> of the walk's state that every call of the callback keeps as long as
  it returns nil or \<open>SkipDir\<close>, with \<open>F\<close> holding of the error and the state when it
  returns another error.
\<close>

definition walk_step_ok ::
  "('st \<Rightarrow> bool) \<Rightarrow> (error option \<Rightarrow> 'st \<Rightarrow> bool) \<Rightarrow> 'st WalkFunc \<Rightarrow> bool" where
  "walk_step_ok G F walkFn =
     (\<forall>p fi st r st'. G st \<longrightarrow> walkFn p (Inr fi) st = (r, st') \<longrightarrow>
        (if r = None \<or> r = Some SkipDir then G st' else F r st'))"

text \<open>
  The visits of a walk that goes on: each was made with the context not cancelled, and
  returned \<open>SkipDir\<close>, or nil with the context still not cancelled after it.
\<close>

definition visits_ok :: "Context \<Rightarrow> visit list \<Rightarrow> bool" where
  "visits_ok ctx log =
     list_all (\<lambda>v. case v of (t, fi, e) \<Rightarrow>
        ctx_Err ctx t = None \<and> (e = None \<and> ctx_Err ctx (Suc t) = None \<or> e = Some SkipDir)) log"

text \<open>
  The visits of a walk that ended with the error \<open>r\<close>: the context was found cancelled
  before a visit, or the last visit returned \<open>r\<close>, or the context was found cancelled
  after the last visit.
\<close>

definition visits_stopped :: "Context \<Rightarrow> error option \<Rightarrow> visit list \<Rightarrow> bool" where
  "visits_stopped ctx r log =
     ((r = Some Canceled \<and> visits_ok ctx log) \<or>
      (log \<noteq> [] \<and> visits_ok ctx (butlast log) \<and>
         (case last log of (t, fi, e) \<Rightarrow>
            ctx_Err ctx t = None \<and>
            ((e = r \<and> e \<noteq> None \<and> e \<noteq> Some SkipDir) \<or>
             (e = None \<and> ctx_Err ctx (Suc t) \<noteq> None \<and> r = Some Canceled)))))"

text \<open>A repository whose data directory holds two subdirectories with objects.\<close>

definition ex_fs_tree :: filesys where
  "ex_fs_tree =
     Dir [(''repo'', Dir [(''data'',
       Dir [(''00'', Dir [(''a'', File [1]), (''b'', File [1, 2])]),
            (''01'', Dir [(''c'', File [])])])])]"

text \<open>A data directory with one object and an empty subdirectory after it.\<close>

definition ex_fs_dirs :: filesys where
  "ex_fs_dirs = Dir [(''repo'', Dir [(''data'', Dir [(''a'', File [1]), (''z'', Dir [])])])]"

text \<open>Three visitors without a state: one accepts every file, two return an error.\<close>

definition visit_ok :: "unit Visitor" where
  "visit_ok now s fi = (None, s)"

definition visit_skip :: "unit Visitor" where
  "visit_skip now s fi = (Some SkipDir, s)"

definition visit_fail :: "unit Visitor" where
  "visit_fail now s fi = (Some (ErrNew ''stop''), s)"

section \<open>Configuration parsing: the two variants\<close>

lemma split_at_sep:
  assumes "c \<in> set s"
  shows "s = takeWhile (\<lambda>x. x \<noteq> c) s @ c # tl (dropWhile (\<lambda>x. x \<noteq> c) s)"
proof -
  from assms have ne: "dropWhile (\<lambda>x. x \<noteq> c) s \<noteq> []"
    by (simp add: dropWhile_eq_Nil_conv)
  then have "hd (dropWhile (\<lambda>x. x \<noteq> c) s) = c"
    using hd_dropWhile[of "\<lambda>x. x \<noteq> c" s] by simp
  with ne have "dropWhile (\<lambda>x. x \<noteq> c) s = c # tl (dropWhile (\<lambda>x. x \<noteq> c) s)"
    by (cases "dropWhile (\<lambda>x. x \<noteq> c) s") auto
  then show ?thesis
    using takeWhile_dropWhile_id[of "\<lambda>x. x \<noteq> c" s] by metis
qed

lemma SplitN3_shape:
  assumes "3 \<le> length (SplitN s c 3)"
  shows "\<exists>a b. s = a @ c # b @ c # (SplitN s c 3 ! 2) \<and> c \<notin> set a \<and> c \<notin> set b
     \<and> SplitN s c 3 = [a, b, SplitN s c 3 ! 2]"
proof -
  let ?a = "takeWhile (\<lambda>x. x \<noteq> c) s"
  let ?r = "tl (dropWhile (\<lambda>x. x \<noteq> c) s)"
  let ?b = "takeWhile (\<lambda>x. x \<noteq> c) ?r"
  let ?t = "tl (dropWhile (\<lambda>x. x \<noteq> c) ?r)"
  from assms have c1: "c \<in> set s"
    by (simp add: numeral_3_eq_3 split: if_splits)
  with assms have c2: "c \<in> set ?r"
    by (simp add: numeral_3_eq_3 split: if_splits)
  from c1 c2 have sp: "SplitN s c 3 = [?a, ?b, ?t]"
    by (simp add: numeral_3_eq_3)
  have s1: "s = ?a @ c # ?r" using c1 by (rule split_at_sep)
  have s2: "?r = ?b @ c # ?t" using c2 by (rule split_at_sep)
  have na: "c \<notin> set ?a" by (metis (mono_tags, lifting) set_takeWhileD)
  have nb: "c \<notin> set ?b" by (metis (mono_tags, lifting) set_takeWhileD)
  from s1 s2 have "s = ?a @ c # ?b @ c # ?t" by metis
  with sp na nb show ?thesis by simp
qed

text \<open>
  Claim C10, as stated: on every input that both variants accept, the \<open>Path\<close> of the
  first variant's configuration equals the \<open>Path\<close> of the second's. It fails on
  \<open>pcloud:u:p:repo\<close>: the first variant returns the third field, the second the unsplit
  rest of the input.
\<close>

theorem ParseConfig_variants_disagree:
  "ParseConfig ''pcloud:u:p:repo'' =
     Inr (NewConfig \<lparr> UserName := ''u'', Password := ''p'', cfg_Path := ''repo'' \<rparr>) \<and>
   ParseConfig2 ''pcloud:u:p:repo'' = Inr \<lparr> cfg2_Path = '':u:p:repo'', cfg2_Layout = [] \<rparr> \<and>
   cfg_Path (NewConfig \<lparr> UserName := ''u'', Password := ''p'', cfg_Path := ''repo'' \<rparr>) \<noteq>
   cfg2_Path \<lparr> cfg2_Path = '':u:p:repo'', cfg2_Layout = [] \<rparr>"
  by (simp add: ParseConfig_def ParseConfig2_def numeral_3_eq_3)

text \<open>
  Claim C10, amended: the two variants are not equivalent. On every input that both
  accept, the first variant's \<open>Path\<close> is the text after the second colon that follows
  the prefix (the two fields before it are the user name and the password), the second
  variant's \<open>Path\<close> is an unsplit rest of the input that ends with the first variant's
  \<open>Path\<close> and is strictly longer; so the two \<open>Path\<close> fields are never equal.
\<close>

theorem ParseConfig_Path_proper_suffix:
  assumes p1: "ParseConfig s = Inr c1" and p2: "ParseConfig2 s = Inr c2"
  shows "cfg_Path c1 \<noteq> cfg2_Path c2 \<and>
         (\<exists>pre. pre \<noteq> [] \<and> cfg2_Path c2 = pre @ cfg_Path c1) \<and>
         (\<exists>u p. drop 7 s = u @ CHR '':'' # p @ CHR '':'' # cfg_Path c1 \<and>
                CHR '':'' \<notin> set u \<and> CHR '':'' \<notin> set p \<and>
                UserName c1 = u \<and> Password c1 = p)"
proof -
  from p1 have pre: "prefix ''pcloud:'' s"
    by (auto simp: ParseConfig_def split: if_splits)
  then obtain r where s: "s = ''pcloud:'' @ r"
    by (auto simp: prefix_def)
  have d7: "drop 7 s = r" and d6: "drop 6 s = CHR '':'' # r"
    by (simp_all add: s)
  from p1 pre have len: "3 \<le> length (SplitN r (CHR '':'') 3)"
    and c1: "c1 = NewConfig \<lparr> UserName := SplitN r (CHR '':'') 3 ! 0,
                Password := SplitN r (CHR '':'') 3 ! 1, cfg_Path := SplitN r (CHR '':'') 3 ! 2 \<rparr>"
    by (auto simp: ParseConfig_def Let_def d7 split: if_splits)
  from SplitN3_shape[OF len] obtain a b where
    r: "r = a @ CHR '':'' # b @ CHR '':'' # (SplitN r (CHR '':'') 3 ! 2)"
    and na: "CHR '':'' \<notin> set a" and nb: "CHR '':'' \<notin> set b"
    and sp: "SplitN r (CHR '':'') 3 = [a, b, SplitN r (CHR '':'') 3 ! 2]"
    by blast
  have path1: "cfg_Path c1 = SplitN r (CHR '':'') 3 ! 2" by (simp add: c1)
  have un: "UserName c1 = a" and pw: "Password c1 = b"
    using sp by (simp_all add: c1) (metis nth_Cons_0, metis nth_Cons_0 nth_Cons_Suc)
  from p2 pre have path2: "cfg2_Path c2 = CHR '':'' # r"
    by (auto simp: ParseConfig2_def d6 split: if_splits)
  have e: "cfg2_Path c2 = (CHR '':'' # a @ CHR '':'' # b @ [CHR '':'']) @ cfg_Path c1"
    using r path1 path2 by simp
  then have "length (cfg2_Path c2) \<noteq> length (cfg_Path c1)" by simp
  then have ne: "cfg_Path c1 \<noteq> cfg2_Path c2" by auto
  have "\<exists>pre. pre \<noteq> [] \<and> cfg2_Path c2 = pre @ cfg_Path c1"
    using e by blast
  moreover have "\<exists>u p. drop 7 s = u @ CHR '':'' # p @ CHR '':'' # cfg_Path c1 \<and>
                CHR '':'' \<notin> set u \<and> CHR '':'' \<notin> set p \<and>
                UserName c1 = u \<and> Password c1 = p"
    using r na nb un pw path1 d7 by metis
  ultimately show ?thesis using ne by blast
qed

theorem ParseConfig_Path_proper_suffix_witness:
  "ParseConfig ''pcloud:user:pw:my/repo'' =
     Inr (NewConfig \<lparr> UserName := ''user'', Password := ''pw'', cfg_Path := ''my/repo'' \<rparr>) \<and>
   ParseConfig2 ''pcloud:user:pw:my/repo'' =
     Inr \<lparr> cfg2_Path = '':user:pw:my/repo'', cfg2_Layout = [] \<rparr> \<and>
   (\<exists>pre. pre \<noteq> [] \<and> '':user:pw:my/repo'' = pre @ ''my/repo'')"
proof -
  have a: "ParseConfig ''pcloud:user:pw:my/repo'' =
     Inr (NewConfig \<lparr> UserName := ''user'', Password := ''pw'', cfg_Path := ''my/repo'' \<rparr>)"
    by (simp add: ParseConfig_def numeral_3_eq_3)
  have b: "ParseConfig2 ''pcloud:user:pw:my/repo'' =
     Inr \<lparr> cfg2_Path = '':user:pw:my/repo'', cfg2_Layout = [] \<rparr>"
    by (simp add: ParseConfig2_def)
  from ParseConfig_Path_proper_suffix[OF a b] a b show ?thesis by simp
qed

section \<open>The layout's file names\<close>

lemma splitc_not_Nil: "splitc c s \<noteq> []"
  by (induction s) (auto split: list.splits)

lemma splitc_append_sep: "splitc c (a @ c # b) = splitc c a @ splitc c b"
  by (induction a) (auto split: list.splits simp: splitc_not_Nil)

lemma splitc_no_sep: "c \<notin> set w \<Longrightarrow> splitc c w = [w]"
  by (induction w) auto

lemma join_with_snoc:
  "join_with sep (ys @ [y]) = (if ys = [] then y else join_with sep ys @ sep @ y)"
  by (induction sep ys rule: join_with.induct) auto

lemma join_with_snoc_suffix: "suffix y (join_with sep (ys @ [y]))"
  by (simp add: join_with_snoc suffix_def)

lemma lex_norm_snoc:
  assumes "w \<noteq> []" "w \<noteq> ''.''" "w \<noteq> ''..''"
  shows "lex_norm r (cs @ [w]) = lex_norm r cs @ [w]"
  using assms by (simp add: lex_norm_def lex_step_def)

text \<open>A cleaned path ends with its last element, when that is a proper name.\<close>

lemma Clean_last:
  assumes w: "w \<noteq> []" "w \<noteq> ''.''" "w \<noteq> ''..''" "CHR ''/'' \<notin> set w"
    and j: "j = w \<or> (\<exists>j0. j = j0 @ CHR ''/'' # w)"
  shows "suffix w (Clean j)"
proof -
  have "\<exists>cs. splitc (CHR ''/'') j = cs @ [w]"
  proof (cases "j = w")
    case True
    with w show ?thesis by (simp add: splitc_no_sep)
  next
    case False
    with j obtain j0 where "j = j0 @ CHR ''/'' # w" by blast
    with w show ?thesis by (simp add: splitc_append_sep splitc_no_sep)
  qed
  then obtain cs where cs: "splitc (CHR ''/'') j = cs @ [w]" by blast
  have jne: "j \<noteq> []" using j w by auto
  let ?r = "hd j = CHR ''/''"
  have n: "lex_norm ?r (splitc (CHR ''/'') j) = lex_norm ?r cs @ [w]"
    using w by (simp add: cs lex_norm_snoc)
  have s: "suffix w (join_with ''/'' (lex_norm ?r (splitc (CHR ''/'') j)))"
    by (simp only: n join_with_snoc_suffix)
  then have ne: "join_with ''/'' (lex_norm ?r (splitc (CHR ''/'') j)) \<noteq> []"
    using w by (auto simp: suffix_def)
  show ?thesis
    using s ne jne by (auto simp: Clean_def Let_def suffix_def)
qed

lemma dropWhile_snoc_keep:
  "\<not> P y \<Longrightarrow> \<exists>zs. dropWhile P (xs @ [y]) = zs @ [y]"
  by (induction xs) auto

lemma path_Join_last:
  assumes w: "w \<noteq> []" "w \<noteq> ''.''" "w \<noteq> ''..''" "CHR ''/'' \<notin> set w"
  shows "suffix w (path_Join (xs @ [w]))"
proof -
  from w obtain zs where zs: "dropWhile (\<lambda>e. e = []) (xs @ [w]) = zs @ [w]"
    using dropWhile_snoc_keep[of "\<lambda>e. e = []" w xs] by blast
  have j: "join_with ''/'' (zs @ [w]) = w \<or> (\<exists>j0. join_with ''/'' (zs @ [w]) = j0 @ CHR ''/'' # w)"
    by (simp add: join_with_snoc)
  have "path_Join (xs @ [w]) = Clean (join_with ''/'' (zs @ [w]))"
    by (cases "zs @ [w]") (simp_all add: path_Join_def zs)
  with Clean_last[OF w j] show ?thesis by simp
qed

text \<open>
  Claim C7, as stated: \<open>Filename\<close> is a deterministic function of (URL, Path, Join) and
  the handle, and for a handle of type Config the name is ignored and the file name
  always ends in \<open>config\<close>. The last part depends on the \<open>Join\<close> the layout was given:
  with a \<open>Join\<close> that closes every element with a slash, the file name of the config
  handle ends in a slash.
\<close>

theorem Filename_config_suffix_depends_on_Join:
  "Filename ex_paths
     \<lparr> URL = [], Path = ''repo'', Join = (\<lambda>es. concat (map (\<lambda>e. e @ ''/'') es)) \<rparr>
     \<lparr> Type = ConfigFile, Name = ''abc'' \<rparr> = ''repo////config/'' \<and>
   \<not> suffix ''config'' ''repo////config/''"
  by (simp add: Filename_def ex_paths_def paths_at_def suffix_def)

text \<open>
  Claim C7, amended: \<open>Filename\<close> is a deterministic function of the layout's fields, the
  layout's table of directory names and the handle: equal (URL, Path, Join) and equal
  handles give equal strings. For a handle of type Config the handle's name is ignored,
  and the file name ends in \<open>config\<close> whenever \<open>Join\<close> returns a string ending in
  \<open>config\<close> for every list of elements whose last one is \<open>config\<close> (as \<open>path.Join\<close> does).
\<close>

theorem Filename_deterministic:
  "(URL l1 = URL l2 \<and> Path l1 = Path l2 \<and> Join l1 = Join l2 \<and>
      Type h1 = Type h2 \<and> Name h1 = Name h2 \<longrightarrow> Filename tbl l1 h1 = Filename tbl l2 h2) \<and>
   (Type h = ConfigFile \<and> Type h' = ConfigFile \<longrightarrow> Filename tbl l h = Filename tbl l h') \<and>
   (Type h = ConfigFile \<and> (\<forall>xs. suffix ''config'' (Join l (xs @ [''config''])))
      \<longrightarrow> suffix ''config'' (Filename tbl l h))"
proof (intro conjI impI)
  assume "URL l1 = URL l2 \<and> Path l1 = Path l2 \<and> Join l1 = Join l2 \<and>
      Type h1 = Type h2 \<and> Name h1 = Name h2"
  then show "Filename tbl l1 h1 = Filename tbl l2 h2"
    by (simp add: Filename_def)
next
  assume "Type h = ConfigFile \<and> Type h' = ConfigFile"
  then show "Filename tbl l h = Filename tbl l h'"
    by (simp add: Filename_def)
next
  assume a: "Type h = ConfigFile \<and> (\<forall>xs. suffix ''config'' (Join l (xs @ [''config''])))"
  then have "suffix ''config'' (Join l ([Path l, ''/'', paths_at tbl ConfigFile] @ [''config'']))"
    by blast
  then have "suffix ''config'' (URL l @ Join l [Path l, ''/'', paths_at tbl ConfigFile, ''config''])"
    by (simp add: suffix_appendI)
  with a show "suffix ''config'' (Filename tbl l h)"
    by (simp add: Filename_def)
qed

theorem Filename_deterministic_witness:
  "Filename ex_paths ex_layout \<lparr> Type = ConfigFile, Name = ''abc'' \<rparr> = ''repo/config'' \<and>
   Filename ex_paths ex_layout \<lparr> Type = ConfigFile, Name = [] \<rparr> = ''repo/config'' \<and>
   Filename ex_paths (ex_layout \<lparr> Path := ''repo'' \<rparr>) \<lparr> Type = DataFile, Name = ''abc'' \<rparr> =
     Filename ex_paths ex_layout \<lparr> Type = DataFile, Name = ''abc'' \<rparr> \<and>
   suffix ''config'' (Filename ex_paths ex_layout \<lparr> Type = ConfigFile, Name = ''abc'' \<rparr>)"
proof -
  have j: "\<forall>xs. suffix ''config'' (Join ex_layout (xs @ [''config'']))"
    by (simp add: ex_layout_def path_Join_last)
  have e: "Filename ex_paths ex_layout \<lparr> Type = ConfigFile, Name = ''abc'' \<rparr> = ''repo/config''"
    by (simp add: Filename_def ex_layout_def ex_paths_def paths_at_def path_Join_def Clean_def
        lex_norm_def lex_step_def)
  have e2: "Filename ex_paths ex_layout \<lparr> Type = ConfigFile, Name = [] \<rparr> = ''repo/config''"
    by (simp add: Filename_def ex_layout_def ex_paths_def paths_at_def path_Join_def Clean_def
        lex_norm_def lex_step_def)
  note t = Filename_deterministic[of "ex_layout \<lparr> Path := ''repo'' \<rparr>" ex_layout
      "\<lparr> Type = DataFile, Name = ''abc'' \<rparr>" "\<lparr> Type = DataFile, Name = ''abc'' \<rparr>" ex_paths
      "\<lparr> Type = ConfigFile, Name = ''abc'' \<rparr>" "\<lparr> Type = ConfigFile, Name = [] \<rparr>" ex_layout]
  from t have d: "Filename ex_paths (ex_layout \<lparr> Path := ''repo'' \<rparr>) \<lparr> Type = DataFile, Name = ''abc'' \<rparr> =
     Filename ex_paths ex_layout \<lparr> Type = DataFile, Name = ''abc'' \<rparr>"
    by (simp add: ex_layout_def)
  have s: "suffix ''config'' (Filename ex_paths ex_layout \<lparr> Type = ConfigFile, Name = ''abc'' \<rparr>)"
    by (rule t[THEN conjunct2, THEN conjunct2, THEN mp]) (simp add: j)
  show ?thesis
    by (intro conjI) (rule e, rule e2, rule d, rule s)
qed

section \<open>The concrete repository, evaluated\<close>

lemma ex_Filename_data:
  "L_Filename (be_Layout ex_backend) \<lparr> Type = DataFile, Name = n \<rparr> = path_Join [''repo'', ''/'', ''data'', n]"
  by (simp add: ex_backend_def PcloudLayout_Layout_def Filename_def ex_layout_def ex_paths_def paths_at_def)

lemma ex_Filename_ab: "L_Filename (be_Layout ex_backend) ex_handle = ''repo/data/ab''"
  by (simp add: ex_handle_def ex_Filename_data path_Join_def Clean_def lex_norm_def lex_step_def)

lemma ex_Filename_config:
  "L_Filename (PcloudLayout_Layout ex_paths ex_layout) \<lparr> Type = ConfigFile, Name = n \<rparr> = ''repo/config''"
  by (simp add: PcloudLayout_Layout_def Filename_def ex_layout_def ex_paths_def paths_at_def
      path_Join_def Clean_def lex_norm_def lex_step_def)

lemma components_ab: "components ''repo/data/ab'' = [''repo'', ''data'', ''ab'']"
  by (simp add: components_def lex_norm_def lex_step_def)

lemma components_config: "components ''repo/config'' = [''repo'', ''config'']"
  by (simp add: components_def lex_norm_def lex_step_def)

lemma Valid_ex_handle: "Valid ex_handle = None"
  by (simp add: Valid_def ex_handle_def)

section \<open>Test\<close>

text \<open>
  Claim C3: for every handle, \<open>Test\<close> returns false and no error when nothing exists at
  the handle's file name (the path resolves to ENOENT), true and no error when something
  exists there, and an error only for a failure other than non-existence (with the
  result false).
\<close>

theorem Test_not_found_is_false:
  "(resolve fs (L_Filename (be_Layout b) h) = Inl ENOENT \<longrightarrow> Test ctx b h fs = (False, None)) \<and>
   (\<forall>n. resolve fs (L_Filename (be_Layout b) h) = Inr n \<longrightarrow> Test ctx b h fs = (True, None)) \<and>
   (snd (Test ctx b h fs) \<noteq> None \<longrightarrow>
      \<not> fst (Test ctx b h fs) \<and>
      (\<exists>e. e \<noteq> ENOENT \<and> resolve fs (L_Filename (be_Layout b) h) = Inl e))"
  by (auto simp: Test_def fs_Stat_def split: sum.splits)

theorem Test_not_found_is_false_witness:
  "resolve ex_fs_empty ''repo/data/ab'' = Inl ENOENT \<and>
   Test None ex_backend ex_handle ex_fs_empty = (False, None) \<and>
   resolve ex_fs_one ''repo/data/ab'' = Inr (File [1, 2, 3]) \<and>
   Test None ex_backend ex_handle ex_fs_one = (True, None) \<and>
   resolve ex_fs_blocked ''repo/data/ab'' = Inl ENOTDIR \<and>
   snd (Test None ex_backend ex_handle ex_fs_blocked) \<noteq> None"
proof -
  have r1: "resolve ex_fs_empty ''repo/data/ab'' = Inl ENOENT"
    by (simp add: resolve_def components_ab ex_fs_empty_def)
  have r2: "resolve ex_fs_one ''repo/data/ab'' = Inr (File [1, 2, 3])"
    by (simp add: resolve_def components_ab ex_fs_one_def)
  have r3: "resolve ex_fs_blocked ''repo/data/ab'' = Inl ENOTDIR"
    by (simp add: resolve_def components_ab ex_fs_blocked_def)
  have t3: "snd (Test None ex_backend ex_handle ex_fs_blocked) \<noteq> None"
    by (simp add: Test_def fs_Stat_def ex_Filename_ab r3)
  from Test_not_found_is_false[where fs=ex_fs_empty and b=ex_backend and h=ex_handle and ctx=None]
  have t1: "Test None ex_backend ex_handle ex_fs_empty = (False, None)"
    by (simp add: ex_Filename_ab r1)
  from Test_not_found_is_false[where fs=ex_fs_one and b=ex_backend and h=ex_handle and ctx=None]
  have t2: "Test None ex_backend ex_handle ex_fs_one = (True, None)"
    by (simp add: ex_Filename_ab r2)
  from Test_not_found_is_false[where fs=ex_fs_blocked and b=ex_backend and h=ex_handle and ctx=None] t3
  have "\<exists>e. e \<noteq> ENOENT \<and> resolve ex_fs_blocked (L_Filename (be_Layout ex_backend) ex_handle) = Inl e"
    by blast
  show ?thesis
    by (intro conjI) (rule r1, rule t1, rule r2, rule t2, rule r3, rule t3)
qed

section \<open>Stat\<close>

text \<open>
  Claim C8: for a valid handle whose object exists (a regular file at the handle's file
  name), \<open>Stat\<close> returns the object's length in bytes as \<open>Size\<close> and the handle's name as
  \<open>Name\<close>, with no error; for an invalid handle or a path that does not resolve it
  returns an error and the zero \<open>FileInfo\<close>.
\<close>

theorem Stat_size_and_name:
  "(Valid h = None \<and> resolve fs (L_Filename (be_Layout b) h) = Inr (File d) \<longrightarrow>
      Stat ctx b h fs = (\<lparr> Size = int (length d), fiName = Name h \<rparr>, None)) \<and>
   (Valid h \<noteq> None \<or> (\<exists>e. resolve fs (L_Filename (be_Layout b) h) = Inl e) \<longrightarrow>
      fst (Stat ctx b h fs) = \<lparr> Size = 0, fiName = [] \<rparr> \<and> snd (Stat ctx b h fs) \<noteq> None)"
  by (auto simp: Stat_def fs_Stat_def zero_FileInfo_def split: option.splits sum.splits)

theorem Stat_size_and_name_witness:
  "Stat None ex_backend ex_handle ex_fs_one = (\<lparr> Size = 3, fiName = ''ab'' \<rparr>, None) \<and>
   fst (Stat None ex_backend ex_handle ex_fs_empty) = \<lparr> Size = 0, fiName = [] \<rparr> \<and>
   snd (Stat None ex_backend ex_handle ex_fs_empty) \<noteq> None \<and>
   Valid \<lparr> Type = DataFile, Name = [] \<rparr> \<noteq> None \<and>
   fst (Stat None ex_backend \<lparr> Type = DataFile, Name = [] \<rparr> ex_fs_one) = \<lparr> Size = 0, fiName = [] \<rparr> \<and>
   snd (Stat None ex_backend \<lparr> Type = DataFile, Name = [] \<rparr> ex_fs_one) \<noteq> None"
proof -
  have r1: "resolve ex_fs_empty ''repo/data/ab'' = Inl ENOENT"
    by (simp add: resolve_def components_ab ex_fs_empty_def)
  have r2: "resolve ex_fs_one ''repo/data/ab'' = Inr (File [1, 2, 3])"
    by (simp add: resolve_def components_ab ex_fs_one_def)
  have v: "Valid \<lparr> Type = DataFile, Name = [] \<rparr> \<noteq> None"
    by (simp add: Valid_def)
  from Stat_size_and_name[where h=ex_handle and fs=ex_fs_one and b=ex_backend and d="[1, 2, 3]" and ctx=None]
  have a: "Stat None ex_backend ex_handle ex_fs_one = (\<lparr> Size = 3, fiName = ''ab'' \<rparr>, None)"
    by (simp add: Valid_ex_handle ex_Filename_ab r2) (simp add: ex_handle_def)
  from Stat_size_and_name[where h=ex_handle and fs=ex_fs_empty and b=ex_backend and ctx=None]
  have b: "fst (Stat None ex_backend ex_handle ex_fs_empty) = \<lparr> Size = 0, fiName = [] \<rparr> \<and>
     snd (Stat None ex_backend ex_handle ex_fs_empty) \<noteq> None"
    by (simp add: ex_Filename_ab r1)
  from Stat_size_and_name[where h="\<lparr> Type = DataFile, Name = [] \<rparr>" and fs=ex_fs_one and b=ex_backend and ctx=None] v
  have c: "fst (Stat None ex_backend \<lparr> Type = DataFile, Name = [] \<rparr> ex_fs_one) = \<lparr> Size = 0, fiName = [] \<rparr> \<and>
   snd (Stat None ex_backend \<lparr> Type = DataFile, Name = [] \<rparr> ex_fs_one) \<noteq> None"
    by blast
  from a b c v show ?thesis by blast
qed

section \<open>Load\<close>

text \<open>
  Claim C9: for a valid handle, \<open>Load\<close> returns an error for every negative offset; for
  an offset of at least 0 and a stored object, a positive length gives a reader that
  yields at most \<open>length\<close> bytes of the object from position \<open>offset\<close> on, and the length
  0 a reader that yields the object from \<open>offset\<close> to its end. Length and offset are
  only compared with 0 and handed on, so they are unbounded integers here.
\<close>

theorem Load_range:
  "Valid h = None \<longrightarrow>
     (offset < 0 \<longrightarrow> (\<exists>e. Load ctx b h len offset fs = Inl e)) \<and>
     (0 \<le> offset \<and> resolve fs (L_Filename (be_Layout b) h) = Inr (File d) \<longrightarrow>
        (0 < len \<longrightarrow>
           (\<exists>rd. Load ctx b h len offset fs = Inr rd \<and>
                 read_all rd = Inr (take (nat len) (drop (nat offset) d)))) \<and>
        (len = 0 \<longrightarrow>
           (\<exists>rd. Load ctx b h len offset fs = Inr rd \<and>
                 read_all rd = Inr (drop (nat offset) d))))"
  by (auto simp: Load_def fs_Open_def file_Seek_def)

theorem Load_range_witness:
  "(\<exists>e. Load None ex_backend ex_handle 2 (- 1) ex_fs_one = Inl e) \<and>
   (\<exists>rd. Load None ex_backend ex_handle 1 1 ex_fs_one = Inr rd \<and> read_all rd = Inr [2]) \<and>
   (\<exists>rd. Load None ex_backend ex_handle 5 1 ex_fs_one = Inr rd \<and> read_all rd = Inr [2, 3]) \<and>
   (\<exists>rd. Load None ex_backend ex_handle 0 1 ex_fs_one = Inr rd \<and> read_all rd = Inr [2, 3])"
proof -
  have r2: "resolve ex_fs_one (L_Filename (be_Layout ex_backend) ex_handle) = Inr (File [1, 2, 3])"
    by (simp add: ex_Filename_ab resolve_def components_ab ex_fs_one_def)
  from Load_range[where h=ex_handle and offset="- 1" and ctx=None and b=ex_backend and len=2 and fs=ex_fs_one] Valid_ex_handle
  have a: "\<exists>e. Load None ex_backend ex_handle 2 (- 1) ex_fs_one = Inl e" by simp
  from Load_range[where h=ex_handle and offset=1 and ctx=None and b=ex_backend and len=1 and fs=ex_fs_one and d="[1, 2, 3]"] Valid_ex_handle r2
  have b: "\<exists>rd. Load None ex_backend ex_handle 1 1 ex_fs_one = Inr rd \<and> read_all rd = Inr [2]" by simp
  from Load_range[where h=ex_handle and offset=1 and ctx=None and b=ex_backend and len=5 and fs=ex_fs_one and d="[1, 2, 3]"] Valid_ex_handle r2
  have c: "\<exists>rd. Load None ex_backend ex_handle 5 1 ex_fs_one = Inr rd \<and> read_all rd = Inr [2, 3]" by simp
  from Load_range[where h=ex_handle and offset=1 and ctx=None and b=ex_backend and len=0 and fs=ex_fs_one and d="[1, 2, 3]"] Valid_ex_handle r2
  have d: "\<exists>rd. Load None ex_backend ex_handle 0 1 ex_fs_one = Inr rd \<and> read_all rd = Inr [2, 3]" by simp
  from a b c d show ?thesis by blast
qed

section \<open>Create\<close>

text \<open>
  Claim C4: when a config object already exists at the file name the layout gives the
  config handle, \<open>Create\<close> fails with an error and leaves the file system as it found it:
  none of the repository's directories is created.
\<close>

theorem Create_existing_config:
  assumes "parseLayout fs (cfg_Layout cfg) defaultLayout (cfg_Path cfg) = Inr l"
    and "resolve fs (L_Filename l \<lparr> Type = ConfigFile, Name = [] \<rparr>) = Inr n"
  shows "Create parseLayout cfg fs = (Inl (ErrNew ''config file already exists''), fs)"
  using assms by (simp add: Create_def fs_Lstat_def)

theorem Create_existing_config_witness:
  "resolve ex_fs_config ''repo/config'' = Inr (File [7]) \<and>
   Create ex_parseLayout (be_Config ex_backend) ex_fs_config =
     (Inl (ErrNew ''config file already exists''), ex_fs_config)"
proof -
  have p: "ex_parseLayout ex_fs_config (cfg_Layout (be_Config ex_backend)) defaultLayout
       (cfg_Path (be_Config ex_backend)) = Inr (PcloudLayout_Layout ex_paths ex_layout)"
    by (simp add: ex_parseLayout_def)
  have r: "resolve ex_fs_config ''repo/config'' = Inr (File [7])"
    by (simp add: resolve_def components_config ex_fs_config_def)
  then have r': "resolve ex_fs_config (L_Filename (PcloudLayout_Layout ex_paths ex_layout)
       \<lparr> Type = ConfigFile, Name = [] \<rparr>) = Inr (File [7])"
    by (simp add: ex_Filename_config)
  from Create_existing_config[where parseLayout=ex_parseLayout and fs=ex_fs_config and cfg="be_Config ex_backend" and l="PcloudLayout_Layout ex_paths ex_layout" and n="File [7]", OF p r'] r show ?thesis by simp
qed

section \<open>Lemmas on the file system\<close>

lemma create_fresh:
  "create n cs = Inr n' \<Longrightarrow> lookup n cs = Inl ENOENT"
  "create_in es c cs = Inr es' \<Longrightarrow> lookup_in es c cs = Inl ENOENT"
  by (induction n cs and es c cs arbitrary: n' and es' rule: create_create_in.induct)
     (auto split: sum.splits if_splits)

lemma create_ENOENT:
  "create n cs = Inl ENOENT \<Longrightarrow> lookup n cs = Inl ENOENT"
  "create_in es c cs = Inl ENOENT \<Longrightarrow> lookup_in es c cs = Inl ENOENT"
  by (induction n cs and es c cs rule: create_create_in.induct)
     (auto split: sum.splits if_splits)

lemma create_exists:
  "lookup n cs = Inr m \<Longrightarrow> create n cs = Inl EEXIST"
  "lookup_in es c cs = Inr m \<Longrightarrow> create_in es c cs = Inl EEXIST"
  by (induction n cs and es c cs rule: create_create_in.induct)
     (auto split: sum.splits if_splits)

lemma create_new_file:
  "create n cs = Inr n' \<Longrightarrow> lookup n' cs = Inr (File [])"
  "create_in es c cs = Inr es' \<Longrightarrow> lookup_in es' c cs = Inr (File [])"
  by (induction n cs and es c cs arbitrary: n' and es' rule: create_create_in.induct)
     (auto split: sum.splits if_splits)

lemma create_keeps_files:
  "create n cs = Inr n' \<Longrightarrow> lookup n xs = Inr (File d) \<Longrightarrow> lookup n' xs = Inr (File d)"
  "create_in es c cs = Inr es' \<Longrightarrow> lookup_in es x xs = Inr (File d) \<Longrightarrow> lookup_in es' x xs = Inr (File d)"
proof (induction n cs and es c cs arbitrary: n' xs and es' x xs rule: create_create_in.induct)
  case (2 es c cs)
  then show ?case by (cases xs) (auto split: sum.splits)
qed (auto split: sum.splits if_splits)

lemma mk_chain_no_file: "lookup (mk_chain cs) xs \<noteq> Inr (File d)"
proof (induction cs arbitrary: xs)
  case Nil
  then show ?case by (cases xs) auto
next
  case (Cons c cs)
  then show ?case by (cases xs) auto
qed

lemma mkdirs_keeps_files:
  "mkdirs n cs = Inr n' \<Longrightarrow> lookup n xs = Inr (File d) \<Longrightarrow> lookup n' xs = Inr (File d)"
  "mkdirs_in es c cs = Inr es' \<Longrightarrow> lookup_in es x xs = Inr (File d) \<Longrightarrow> lookup_in es' x xs = Inr (File d)"
proof (induction n cs and es c cs arbitrary: n' xs and es' x xs rule: mkdirs_mkdirs_in.induct)
  case (2 es c cs)
  then show ?case by (cases xs) (auto split: sum.splits)
qed (auto split: sum.splits if_splits)

lemma write_keeps_other_files:
  "lookup n xs = Inr (File d) \<Longrightarrow> xs \<noteq> cs \<Longrightarrow> lookup (write_at n cs data) xs = Inr (File d)"
  "lookup_in es x xs = Inr (File d) \<Longrightarrow> x # xs \<noteq> c # cs \<Longrightarrow>
     lookup_in (write_in es c cs data) x xs = Inr (File d)"
proof (induction n cs data and es c cs data arbitrary: xs and x xs rule: write_at_write_in.induct)
  case (1 d0 data)
  then show ?case by (cases xs) auto
next
  case (4 es c cs data)
  then show ?case by (cases xs) auto
qed (auto split: if_splits)

lemma write_sets_content:
  "lookup n cs = Inr (File d0) \<Longrightarrow>
     lookup (write_at n cs data) cs = Inr (File (data @ drop (length data) d0))"
  "lookup_in es c cs = Inr (File d0) \<Longrightarrow>
     lookup_in (write_in es c cs data) c cs = Inr (File (data @ drop (length data) d0))"
  by (induction n cs data and es c cs data rule: write_at_write_in.induct)
     (auto split: if_splits)


lemma OpenFile_excl_exists:
  "resolve fs p = Inr n \<Longrightarrow> fs_OpenFile_excl fs p = (Some (PathError ''open'' p EEXIST), fs)"
  by (auto simp: resolve_def fs_OpenFile_excl_def create_exists split: if_splits)

lemma OpenFile_excl_error:
  assumes "fs_OpenFile_excl fs p = (Some e, fs')"
  shows "fs' = fs" and "IsNotExist (Some e) \<Longrightarrow> resolve fs p = Inl ENOENT"
  using assms
  by (auto simp: fs_OpenFile_excl_def resolve_def IsNotExist_def create_ENOENT
      split: if_splits sum.splits)

lemma OpenFile_excl_ok:
  assumes "fs_OpenFile_excl fs p = (None, fs')"
  shows "resolve fs p = Inl ENOENT" and "resolve fs' p = Inr (File [])"
    and "resolve fs q = Inr (File d) \<Longrightarrow> resolve fs' q = Inr (File d)"
  using assms
  by (auto simp: fs_OpenFile_excl_def resolve_def create_fresh create_new_file create_keeps_files
      split: if_splits sum.splits)

lemma MkdirAll_keeps_files:
  assumes "os_MkdirAll fs p = (r, fs')" and "resolve fs q = Inr (File d)"
  shows "resolve fs' q = Inr (File d)"
  using assms
  by (auto simp: os_MkdirAll_def resolve_def mkdirs_keeps_files split: if_splits sum.splits)

lemma MkdirAll_error: "os_MkdirAll fs p = (Some e, fs') \<Longrightarrow> fs' = fs"
  by (auto simp: os_MkdirAll_def split: if_splits sum.splits)

lemma Write_sets_content:
  "resolve fs p = Inr (File d0) \<Longrightarrow>
     resolve (file_Write fs p data) p = Inr (File (data @ drop (length data) d0))"
  by (auto simp: resolve_def file_Write_def write_sets_content split: if_splits)

lemma Write_keeps_other_files:
  assumes "resolve fs q = Inr (File d)" and "components q \<noteq> components p"
  shows "resolve (file_Write fs p data) q = Inr (File d)"
  using assms
  by (auto simp: resolve_def file_Write_def write_keeps_other_files split: if_splits)

lemma resolve_differs_components:
  assumes "resolve fs q = Inr n" and "resolve fs p = Inl e" and "p \<noteq> []"
  shows "components q \<noteq> components p"
  using assms by (auto simp: resolve_def split: if_splits)

text \<open>What \<open>Save\<close> does with a valid handle, by the outcome of opening the file.\<close>

lemma Save_cases:
  assumes v: "Valid h = None"
  obtains (open_failed) e fs2 where
      "Save ctx b h rd fs = (Some (ErrWrap ''OpenFile'' e), fs2)"
      "\<And>n. resolve fs (L_Filename (be_Layout b) h) = Inr n \<Longrightarrow> fs2 = fs"
      "\<And>q d. resolve fs q = Inr (File d) \<Longrightarrow> resolve fs2 q = Inr (File d)"
  | (opened) fs2 data rerr where
      "rd = Reader data rerr"
      "resolve fs (L_Filename (be_Layout b) h) = Inl ENOENT"
      "resolve fs2 (L_Filename (be_Layout b) h) = Inr (File [])"
      "\<And>q d. resolve fs q = Inr (File d) \<Longrightarrow> resolve fs2 q = Inr (File d)"
      "Save ctx b h rd fs =
         (case rerr of
            Some e \<Rightarrow> Some (ErrWrap ''Write'' e)
          | None \<Rightarrow> setNewFileMode (file_Write fs2 (L_Filename (be_Layout b) h) data)
                      (L_Filename (be_Layout b) h),
          file_Write fs2 (L_Filename (be_Layout b) h) data)"
proof -
  let ?F = "L_Filename (be_Layout b) h"
  obtain data rerr where rd: "rd = Reader data rerr" by (cases rd) auto
  obtain err1 fs1 where o1: "fs_OpenFile_excl fs ?F = (err1, fs1)" by fastforce
  show thesis
  proof (cases err1)
    case None
    note ok = OpenFile_excl_ok[OF o1[unfolded None]]
    have "Save ctx b h rd fs =
         (case rerr of
            Some e \<Rightarrow> Some (ErrWrap ''Write'' e)
          | None \<Rightarrow> setNewFileMode (file_Write fs1 ?F data) ?F,
          file_Write fs1 ?F data)"
      using v o1 None rd by (simp add: Save_def Let_def IsNotExist_def split: option.splits)
    with ok rd show thesis by (intro opened[of data rerr fs1]) auto
  next
    case (Some e1)
    note er = OpenFile_excl_error[OF o1[unfolded Some]]
    show thesis
    proof (cases "IsNotExist (Some e1)")
      case False
      have "Save ctx b h rd fs = (Some (ErrWrap ''OpenFile'' e1), fs)"
        using v o1 Some False er(1) by (simp add: Save_def Let_def)
      then show thesis by (intro open_failed[of e1 fs]) auto
    next
      case True
      then have noent: "resolve fs ?F = Inl ENOENT" by (rule er(2))
      obtain mkdirErr fs' where m: "os_MkdirAll fs (filepath_Dir ?F) = (mkdirErr, fs')"
        by fastforce
      note mk = MkdirAll_keeps_files[OF m]
      show thesis
      proof (cases mkdirErr)
        case (Some me)
        with m have "fs' = fs" by (simp add: MkdirAll_error)
        then have "Save ctx b h rd fs = (Some (ErrWrap ''OpenFile'' e1), fs)"
          using v o1 \<open>err1 = Some e1\<close> True er(1) m Some by (simp add: Save_def Let_def)
        then show thesis by (intro open_failed[of e1 fs]) auto
      next
        case None
        obtain err2 fs2 where o2: "fs_OpenFile_excl fs' ?F = (err2, fs2)" by fastforce
        show thesis
        proof (cases err2)
          case (Some e2)
          note er2 = OpenFile_excl_error[OF o2[unfolded Some]]
          have "Save ctx b h rd fs = (Some (ErrWrap ''OpenFile'' e2), fs')"
            using v o1 \<open>err1 = Some e1\<close> True er(1) m \<open>mkdirErr = None\<close> o2 Some er2(1)
            by (simp add: Save_def Let_def)
          then show thesis using mk noent by (intro open_failed[of e2 fs']) auto
        next
          case None
          note ok = OpenFile_excl_ok[OF o2[unfolded None]]
          have "Save ctx b h rd fs =
             (case rerr of
                Some e \<Rightarrow> Some (ErrWrap ''Write'' e)
              | None \<Rightarrow> setNewFileMode (file_Write fs2 ?F data) ?F,
              file_Write fs2 ?F data)"
            using v o1 \<open>err1 = Some e1\<close> True er(1) m \<open>mkdirErr = None\<close> o2 None rd
            by (simp add: Save_def Let_def IsNotExist_def split: option.splits)
          with ok mk noent rd show thesis by (intro opened[of data rerr fs2]) auto
        qed
      qed
    qed
  qed
qed

section \<open>Save\<close>

text \<open>
  Claim C5: \<open>Save\<close> never mutates a stored object. Whatever the handle and the outcome,
  every regular file keeps its content. For a valid handle: if something already exists
  at the handle's file name, \<open>Save\<close> returns an error and leaves the file system as it
  is; and if \<open>Save\<close> succeeds, nothing existed at the file name before, and afterwards
  the file there holds the reader's bytes.
\<close>

theorem Save_never_mutates:
  "(\<forall>q d. resolve fs q = Inr (File d) \<longrightarrow>
       resolve (snd (Save ctx b h rd fs)) q = Inr (File d)) \<and>
   (Valid h = None \<longrightarrow>
     (\<forall>n. resolve fs (L_Filename (be_Layout b) h) = Inr n \<longrightarrow>
        (\<exists>e. Save ctx b h rd fs = (Some e, fs))) \<and>
     (\<forall>fs'. Save ctx b h rd fs = (None, fs') \<longrightarrow>
        resolve fs (L_Filename (be_Layout b) h) = Inl ENOENT \<and>
        (\<exists>data. rd = Reader data None \<and>
                resolve fs' (L_Filename (be_Layout b) h) = Inr (File data))))"
proof (cases "Valid h")
  case (Some e)
  then have "Save ctx b h rd fs = (Some e, fs)" by (simp add: Save_def)
  with Some show ?thesis by simp
next
  case None
  let ?F = "L_Filename (be_Layout b) h"
  from None show ?thesis
  proof (cases rule: Save_cases[where ctx=ctx and b=b and rd=rd and fs=fs])
    case (open_failed e fs2)
    then show ?thesis using None by auto
  next
    case (opened fs2 data rerr)
    from opened(3) have Fne: "?F \<noteq> []" by (auto simp: resolve_def split: if_splits)
    have frame: "resolve (file_Write fs2 ?F data) q = Inr (File d)"
      if "resolve fs q = Inr (File d)" for q d
    proof -
      from that opened(2) Fne have "components q \<noteq> components ?F"
        by (rule resolve_differs_components)
      with opened(4)[OF that] show ?thesis by (rule Write_keeps_other_files)
    qed
    have content: "resolve (file_Write fs2 ?F data) ?F = Inr (File data)"
      using Write_sets_content[OF opened(3), of data] by simp
    have s: "snd (Save ctx b h rd fs) = file_Write fs2 ?F data"
      by (simp add: opened(5))
    have "\<exists>data'. rd = Reader data' None \<and> resolve fs' ?F = Inr (File data')"
      if "Save ctx b h rd fs = (None, fs')" for fs'
      using that opened(1) opened(5) content by (cases rerr) auto
    with frame s opened(2) None show ?thesis by auto
  qed
qed

lemma ex_Filename_cd: "L_Filename (be_Layout ex_backend) \<lparr> Type = DataFile, Name = ''cd'' \<rparr> = ''repo/data/cd''"
  by (simp add: ex_Filename_data path_Join_def Clean_def lex_norm_def lex_step_def)

lemma Save_ex_empty:
  "Save None ex_backend ex_handle (Reader [9, 8] None) ex_fs_empty =
     (None, Dir [(''repo'', Dir [(''data'', Dir [(''ab'', File [9, 8])])])])"
  by (simp add: Save_def Valid_ex_handle ex_Filename_ab fs_OpenFile_excl_def components_ab
      ex_fs_empty_def IsNotExist_def file_Write_def setNewFileMode_def fs_Chmod_def resolve_def)

theorem Save_never_mutates_witness:
  "resolve ex_fs_one ''repo/data/ab'' = Inr (File [1, 2, 3]) \<and>
   (\<exists>e. Save None ex_backend ex_handle (Reader [9, 8] None) ex_fs_one = (Some e, ex_fs_one)) \<and>
   resolve (snd (Save None ex_backend \<lparr> Type = DataFile, Name = ''cd'' \<rparr> (Reader [9, 8] None) ex_fs_one))
     ''repo/data/ab'' = Inr (File [1, 2, 3]) \<and>
   Save None ex_backend ex_handle (Reader [9, 8] None) ex_fs_empty =
     (None, Dir [(''repo'', Dir [(''data'', Dir [(''ab'', File [9, 8])])])]) \<and>
   resolve ex_fs_empty ''repo/data/ab'' = Inl ENOENT \<and>
   resolve (Dir [(''repo'', Dir [(''data'', Dir [(''ab'', File [9, 8])])])]) ''repo/data/ab'' =
     Inr (File [9, 8])"
proof -
  have r: "resolve ex_fs_one ''repo/data/ab'' = Inr (File [1, 2, 3])"
    by (simp add: resolve_def components_ab ex_fs_one_def)
  note t1 = Save_never_mutates[where fs=ex_fs_one and ctx=None and b=ex_backend and h=ex_handle
      and rd="Reader [9, 8] None"]
  from t1 r have a: "\<exists>e. Save None ex_backend ex_handle (Reader [9, 8] None) ex_fs_one = (Some e, ex_fs_one)"
    by (simp add: Valid_ex_handle ex_Filename_ab)
  note t2 = Save_never_mutates[where fs=ex_fs_one and ctx=None and b=ex_backend
      and h="\<lparr> Type = DataFile, Name = ''cd'' \<rparr>" and rd="Reader [9, 8] None"]
  from t2 r have b: "resolve (snd (Save None ex_backend \<lparr> Type = DataFile, Name = ''cd'' \<rparr> (Reader [9, 8] None) ex_fs_one))
     ''repo/data/ab'' = Inr (File [1, 2, 3])"
    by blast
  note t3 = Save_never_mutates[where fs=ex_fs_empty and ctx=None and b=ex_backend and h=ex_handle
      and rd="Reader [9, 8] None"]
  from t3 Save_ex_empty have c: "resolve ex_fs_empty ''repo/data/ab'' = Inl ENOENT \<and>
   resolve (Dir [(''repo'', Dir [(''data'', Dir [(''ab'', File [9, 8])])])]) ''repo/data/ab'' =
     Inr (File [9, 8])"
    by (simp add: Valid_ex_handle ex_Filename_ab)
  from r a b c Save_ex_empty show ?thesis by blast
qed

section \<open>Validation of handles\<close>

text \<open>\<open>Save\<close>, \<open>Load\<close> and \<open>Stat\<close> return the error of \<open>Valid\<close> without touching the storage.\<close>

lemma validated_operations:
  assumes "Valid h = Some e"
  shows "Save ctx b h rd fs = (Some e, fs)"
    and "Load ctx b h len offset fs = Inl e"
    and "Stat ctx b h fs = (zero_FileInfo, Some e)"
  using assms by (simp_all add: Save_def Load_def Stat_def)

text \<open>
  Claim C2 asks the same of \<open>Test\<close> and \<open>Remove\<close>. They do not call \<open>Valid\<close>: for the
  invalid handle of type Data with the empty name, whose file name is the data
  directory itself, \<open>Test\<close> answers true and \<open>Remove\<close> removes the directory.
\<close>

theorem Test_Remove_skip_validation:
  "Valid \<lparr> Type = DataFile, Name = [] \<rparr> = Some (ErrNew ''invalid Name'') \<and>
   L_Filename (be_Layout ex_backend) \<lparr> Type = DataFile, Name = [] \<rparr> = ''repo/data'' \<and>
   Test None ex_backend \<lparr> Type = DataFile, Name = [] \<rparr> ex_fs_empty = (True, None) \<and>
   Remove None ex_backend \<lparr> Type = DataFile, Name = [] \<rparr> ex_fs_empty =
     (None, Dir [(''repo'', Dir [])])"
proof -
  have f: "L_Filename (be_Layout ex_backend) \<lparr> Type = DataFile, Name = [] \<rparr> = ''repo/data''"
    by (simp add: ex_Filename_data path_Join_def Clean_def lex_norm_def lex_step_def)
  have c: "components ''repo/data'' = [''repo'', ''data'']"
    by (simp add: components_def lex_norm_def lex_step_def)
  have v: "Valid \<lparr> Type = DataFile, Name = [] \<rparr> = Some (ErrNew ''invalid Name'')"
    by (simp add: Valid_def)
  have t: "Test None ex_backend \<lparr> Type = DataFile, Name = [] \<rparr> ex_fs_empty = (True, None)"
    by (simp add: Test_def f fs_Stat_def resolve_def c ex_fs_empty_def)
  have r: "Remove None ex_backend \<lparr> Type = DataFile, Name = [] \<rparr> ex_fs_empty =
     (None, Dir [(''repo'', Dir [])])"
    by (simp add: Remove_def f fs_Chmod_def fs_Remove_def resolve_def c ex_fs_empty_def)
  from v f t r show ?thesis by blast
qed

end
